theory Spec2Isabelle
  imports Main "HOL-Library.Word"
begin

unbundle bit_operations_syntax

section \<open>The message compression filter of gRPC core\<close>

text \<open>
  A shallow embedding of
  \<^verbatim>\<open>src/core/ext/filters/http/message_compress/compression_filter.cc\<close>:
  the constructor of \<^verbatim>\<open>CompressionFilter\<close>, its two per-message transforms
  \<^verbatim>\<open>CompressMessage\<close> and \<^verbatim>\<open>DecompressMessage\<close>, and the two
  \<^verbatim>\<open>TakeAndRun\<close> methods that negotiate the algorithm and the receive limit and
  hand the transform to the message pipe.

  The blocks guarded by \<^verbatim>\<open>GRPC_TRACE_FLAG_ENABLED(grpc_compression_trace)\<close>
  format log lines (sizes, a float ratio, the algorithm's name, which they assert to
  exist) and write them. The embedding is of the filter with that trace flag off, which is
  its default; the one unconditional \<^verbatim>\<open>gpr_log\<close> call, in the constructor, is part
  of the model.
\<close>

subsection \<open>Data\<close>

text \<open>
  Modelled from the spec: the enum \<^verbatim>\<open>grpc_compression_algorithm\<close> is declared in
  grpc/impl/compression_types.h, which is not among the sources. The spec has algorithm
  identifiers with a sentinel "none"; the enumerators are those of the gRPC header, whose
  last one, \<^verbatim>\<open>GRPC_COMPRESS_ALGORITHMS_COUNT\<close>, counts the algorithms and is not one.
\<close>

datatype grpc_compression_algorithm =
  GRPC_COMPRESS_NONE | GRPC_COMPRESS_DEFLATE | GRPC_COMPRESS_GZIP

text \<open>A \<^verbatim>\<open>SliceBuffer\<close> is read and replaced as a whole here: its bytes.\<close>

type_synonym SliceBuffer = "8 word list"

text \<open>\<^verbatim>\<open>Message\<close>: a payload and a \<^verbatim>\<open>uint32_t\<close> of write flags.\<close>

record Message =
  payload :: SliceBuffer
  flags :: "32 word"

text \<open>
  Modelled from the spec: the three write flags are macros of headers that are not among
  the sources (grpc/impl/codegen/grpc_types.h, src/core/lib/transport/transport.h). The
  spec has them as three flags of the message's bitmask: "do not compress", "payload is
  internally compressed" and the test-only "was compressed" marker. The values are those
  of the gRPC headers; the proofs below use of them only that the internally-compressed
  mask is not zero and shares no bit with the was-compressed mask.
\<close>

definition GRPC_WRITE_NO_COMPRESS :: "32 word" where
  "GRPC_WRITE_NO_COMPRESS = 0x00000002"

definition GRPC_WRITE_INTERNAL_COMPRESS :: "32 word" where
  "GRPC_WRITE_INTERNAL_COMPRESS = 0x80000000"

definition GRPC_WRITE_INTERNAL_TEST_ONLY_WAS_COMPRESSED :: "32 word" where
  "GRPC_WRITE_INTERNAL_TEST_ONLY_WAS_COMPRESSED = 0x40000000"

text \<open>A non-OK \<^verbatim>\<open>absl::Status\<close>: the two codes the filter produces, with the message.\<close>

datatype Status = ResourceExhaustedError string | InternalError string

text \<open>\<^verbatim>\<open>absl::StatusOr<T>\<close>: \<open>Inl\<close> a non-OK status, \<open>Inr\<close> the value.\<close>

type_synonym 'a StatusOr = "Status + 'a"

datatype gpr_log_severity = GPR_DEBUG | GPR_INFO | GPR_ERROR

text \<open>
  What a function does besides returning: the calls it makes to the byte-level routines
  (with the algorithm and the input buffer passed) and the lines it logs, in order.
\<close>

datatype effect =
  call_grpc_msg_compress grpc_compression_algorithm SliceBuffer
| call_grpc_msg_decompress grpc_compression_algorithm SliceBuffer
| call_gpr_log gpr_log_severity string

text \<open>
  The collaborators the filter calls and whose code is elsewhere
  (src/core/lib/compression). Each is a parameter of the model.
  \<^item> \<^verbatim>\<open>grpc_msg_compress(algorithm, input, output)\<close> and
    \<^verbatim>\<open>grpc_msg_decompress(algorithm, input, output)\<close> read the input buffer, fill the
    output buffer, which the caller passes empty, and return an \<^verbatim>\<open>int\<close>; they
    leave the input buffer as it is. Here: a function from the algorithm and the input
    bytes to the returned \<^verbatim>\<open>int\<close> and the output bytes.
  \<^item> \<^verbatim>\<open>CompressionAlgorithmAsString\<close> gives the name used in error messages.
  \<^item> \<^verbatim>\<open>grpc_compression_algorithm_name(algorithm, &name)\<close> returns 0, or 1 and a name.
\<close>

record collaborators =
  grpc_msg_compress :: "grpc_compression_algorithm \<Rightarrow> SliceBuffer \<Rightarrow> int \<times> SliceBuffer"
  grpc_msg_decompress :: "grpc_compression_algorithm \<Rightarrow> SliceBuffer \<Rightarrow> int \<times> SliceBuffer"
  CompressionAlgorithmAsString :: "grpc_compression_algorithm \<Rightarrow> string"
  grpc_compression_algorithm_name :: "grpc_compression_algorithm \<Rightarrow> string option"

text \<open>
  \<^verbatim>\<open>ChannelArgs\<close>, as the constructor reads it: through
  \<^verbatim>\<open>GetMaxRecvSizeFromChannelArgs\<close>, \<^verbatim>\<open>DefaultCompressionAlgorithmFromChannelArgs\<close>,
  \<^verbatim>\<open>CompressionAlgorithmSet::FromChannelArgs\<close> and \<^verbatim>\<open>GetBool\<close> of the two
  enable keys. The first two readers and \<^verbatim>\<open>GetBool\<close> are defined elsewhere; a
  \<^verbatim>\<open>ChannelArgs\<close> holds what they return on it, and the set of algorithms the
  channel is configured to enable. A \<^verbatim>\<open>CompressionAlgorithmSet\<close> is a set of
  algorithms, and \<^verbatim>\<open>IsSet\<close> is membership.
\<close>

type_synonym CompressionAlgorithmSet = "grpc_compression_algorithm set"

record ChannelArgs =
  GetMaxRecvSizeFromChannelArgs :: "32 word option"
  DefaultCompressionAlgorithmFromChannelArgs :: "grpc_compression_algorithm option"
  config_enabled_compression_algorithms :: CompressionAlgorithmSet
  GRPC_ARG_ENABLE_PER_MESSAGE_COMPRESSION :: "bool option"
  GRPC_ARG_ENABLE_PER_MESSAGE_DECOMPRESSION :: "bool option"

text \<open>
  Modelled from the spec: \<^verbatim>\<open>CompressionAlgorithmSet::FromChannelArgs\<close> is defined in
  src/core/lib/compression/compression_internal.cc, which is not among the sources. The
  spec (4.1) has the channel configuration carry
  \<^verbatim>\<open>enabled_compression_algorithms: set<AlgorithmId>\<close>, with no algorithm required to
  be in it, and has that set be the filter's enabled set: the function returns the
  configured set as it is.
\<close>

definition CompressionAlgorithmSet_FromChannelArgs :: "ChannelArgs \<Rightarrow> CompressionAlgorithmSet" where
  "CompressionAlgorithmSet_FromChannelArgs args = config_enabled_compression_algorithms args"

text \<open>
  The data members of \<^verbatim>\<open>CompressionFilter\<close>, at the types the member functions use
  them at: \<^verbatim>\<open>max_recv_size_\<close> is what \<^verbatim>\<open>DecompressLoop::TakeAndRun\<close> passes as
  the \<^verbatim>\<open>absl::optional<uint32_t>\<close> parameter of \<^verbatim>\<open>DecompressMessage\<close>.
\<close>

record CompressionFilter =
  max_recv_size :: "32 word option"
  default_compression_algorithm :: grpc_compression_algorithm
  enabled_compression_algorithms :: CompressionAlgorithmSet
  enable_compression :: bool
  enable_decompression :: bool

text \<open>
  \<^verbatim>\<open>MessageSizeParsedConfig\<close>: the per-call limits of the service config. The lookup
  \<^verbatim>\<open>MessageSizeParsedConfig::GetFromCallContext\<close> returns a pointer to one or
  \<^verbatim>\<open>nullptr\<close>: an option.
\<close>

record MessageSizeParsedConfig =
  limits_max_send_size :: "32 word option"
  limits_max_recv_size :: "32 word option"

text \<open>
  Modelled from the spec: \<^verbatim>\<open>grpc_metadata_batch\<close> is declared in
  src/core/lib/transport/metadata_batch.h, which is not among the sources. The spec has
  it as a mapping of metadata keys to typed values with get, set and take (read and
  remove) by typed key. Here: the three keys the filter reads and writes, each absent or
  holding a value; the other keys of a batch are the record's extension.
\<close>

record grpc_metadata_batch =
  GrpcInternalEncodingRequest :: "grpc_compression_algorithm option"
  GrpcAcceptEncodingMetadata :: "CompressionAlgorithmSet option"
  GrpcEncodingMetadata :: "grpc_compression_algorithm option"

subsection \<open>Construction\<close>

text \<open>
  \<^verbatim>\<open>CompressionFilter::CompressionFilter(const ChannelArgs& args)\<close>: the member
  initialisers, then the check that the default algorithm is enabled. Returns the filter
  and what was logged. (The member \<^verbatim>\<open>message_size_service_config_parser_index_\<close> only
  keys the per-call lookup, whose result is a parameter of
  \<^verbatim>\<open>DecompressLoop::TakeAndRun\<close> below.)
\<close>

definition value_or :: "'a option \<Rightarrow> 'a \<Rightarrow> 'a" where
  "value_or x d = (case x of None \<Rightarrow> d | Some v \<Rightarrow> v)"

definition CompressionFilter_CompressionFilter ::
  "'c collaborators_scheme \<Rightarrow> ChannelArgs \<Rightarrow> CompressionFilter \<times> effect list" where
  "CompressionFilter_CompressionFilter env args =
     (let this = \<lparr> max_recv_size = GetMaxRecvSizeFromChannelArgs args,
                   default_compression_algorithm =
                     value_or (DefaultCompressionAlgorithmFromChannelArgs args) GRPC_COMPRESS_NONE,
                   enabled_compression_algorithms = CompressionAlgorithmSet_FromChannelArgs args,
                   enable_compression =
                     value_or (GRPC_ARG_ENABLE_PER_MESSAGE_COMPRESSION args) True,
                   enable_decompression =
                     value_or (GRPC_ARG_ENABLE_PER_MESSAGE_DECOMPRESSION args) True \<rparr>
      in if default_compression_algorithm this \<notin> enabled_compression_algorithms this
         then
           let name = (case grpc_compression_algorithm_name env (default_compression_algorithm this) of
                         None \<Rightarrow> ''<unknown>'' | Some n \<Rightarrow> n)
           in (this\<lparr>default_compression_algorithm := GRPC_COMPRESS_NONE\<rparr>,
               [call_gpr_log GPR_ERROR
                  (''default compression algorithm '' @ name @ '' not enabled: switching to none'')])
         else (this, []))"

text \<open>
  \<^verbatim>\<open>ClientCompressionFilter::Create\<close> and \<^verbatim>\<open>ServerCompressionFilter::Create\<close>
  return the constructed filter as an OK \<^verbatim>\<open>StatusOr\<close>.
\<close>

definition ClientCompressionFilter_Create ::
  "'c collaborators_scheme \<Rightarrow> ChannelArgs \<Rightarrow> CompressionFilter StatusOr \<times> effect list" where
  "ClientCompressionFilter_Create env args =
     (let (this, log) = CompressionFilter_CompressionFilter env args in (Inr this, log))"

definition ServerCompressionFilter_Create ::
  "'c collaborators_scheme \<Rightarrow> ChannelArgs \<Rightarrow> CompressionFilter StatusOr \<times> effect list" where
  "ServerCompressionFilter_Create env args =
     (let (this, log) = CompressionFilter_CompressionFilter env args in (Inr this, log))"

subsection \<open>The per-message transforms\<close>

text \<open>
  \<^verbatim>\<open>CompressionFilter::CompressMessage(MessageHandle message, algorithm)\<close>. The handle
  owns the message, which is changed in place and returned: the model returns the message
  and the effects.
\<close>

definition CompressMessage ::
  "'c collaborators_scheme \<Rightarrow> CompressionFilter \<Rightarrow> Message \<Rightarrow> grpc_compression_algorithm
   \<Rightarrow> Message \<times> effect list" where
  "CompressMessage env this message algorithm =
     (if algorithm = GRPC_COMPRESS_NONE \<or> \<not> enable_compression this \<or>
         flags message AND (GRPC_WRITE_NO_COMPRESS OR GRPC_WRITE_INTERNAL_COMPRESS) \<noteq> 0
      then (message, [])
      else
        let (r, tmp) = grpc_msg_compress env algorithm (payload message);
            did_compress = (r \<noteq> 0);
            called = [call_grpc_msg_compress algorithm (payload message)]
        in if did_compress
           then (message\<lparr> payload := tmp,
                          flags := flags message OR GRPC_WRITE_INTERNAL_COMPRESS \<rparr>, called)
           else (message, called))"

text \<open>
  \<^verbatim>\<open>absl::StrFormat\<close> with \<^verbatim>\<open>%u\<close> on a \<^verbatim>\<open>size_t\<close> and with \<^verbatim>\<open>%d\<close> on a
  \<^verbatim>\<open>uint32_t\<close>: StrFormat takes signedness from the argument's type, so both print the
  unsigned value in decimal.
\<close>

fun decimal :: "nat \<Rightarrow> string" where
  "decimal n =
     (if n < 10 then [char_of (48 + n)]
      else decimal (n div 10) @ [char_of (48 + n mod 10)])"

declare decimal.simps [simp del]

text \<open>
  What one run of \<^verbatim>\<open>DecompressMessage\<close> leaves: the \<^verbatim>\<open>StatusOr<MessageHandle>\<close> it
  returns, the message that the handle passed in owns as it is when the function returns
  (on success this is the message returned), and the effects.
\<close>

record DecompressMessage_run =
  returned :: "Message StatusOr"
  message_at_return :: Message
  effects :: "effect list"

text \<open>
  \<^verbatim>\<open>CompressionFilter::DecompressMessage(MessageHandle message, algorithm,
  absl::optional<uint32_t> max_recv_message_length)\<close>.
\<close>

definition DecompressMessage ::
  "'c collaborators_scheme \<Rightarrow> CompressionFilter \<Rightarrow> Message \<Rightarrow> grpc_compression_algorithm
   \<Rightarrow> 32 word option \<Rightarrow> DecompressMessage_run" where
  "DecompressMessage env this message algorithm max_recv_message_length =
     (if max_recv_message_length \<noteq> None \<and>
         length (payload message) > unat (the max_recv_message_length)
      then \<lparr> returned = Inl (ResourceExhaustedError
                 (''Received message larger than max ('' @ decimal (length (payload message)) @
                  '' vs. '' @ decimal (unat (the max_recv_message_length)) @ '')'')),
             message_at_return = message, effects = [] \<rparr>
      else if \<not> enable_decompression this \<or>
              flags message AND GRPC_WRITE_INTERNAL_COMPRESS = 0
      then \<lparr> returned = Inr message, message_at_return = message, effects = [] \<rparr>
      else
        let (r, decompressed_slices) = grpc_msg_decompress env algorithm (payload message);
            called = [call_grpc_msg_decompress algorithm (payload message)]
        in if r = 0
           then \<lparr> returned = Inl (InternalError
                      (''Unexpected error decompressing data for algorithm '' @
                       CompressionAlgorithmAsString env algorithm)),
                  message_at_return = message, effects = called \<rparr>
           else
             let message' = message\<lparr> payload := decompressed_slices,
                                     flags := (flags message AND NOT GRPC_WRITE_INTERNAL_COMPRESS)
                                              OR GRPC_WRITE_INTERNAL_TEST_ONLY_WAS_COMPRESSED \<rparr>
             in \<lparr> returned = Inr message', message_at_return = message', effects = called \<rparr>)"

subsection \<open>Negotiation\<close>

text \<open>
  \<^verbatim>\<open>DecompressLoop::TakeAndRun(algorithm)\<close>: the receive limit it configures, from the
  filter's and from the per-call \<^verbatim>\<open>limits\<close> (the result of
  \<^verbatim>\<open>GetFromCallContext\<close>), and the transform it hands to the pipe mapper.
\<close>

definition DecompressLoop_max_recv_message_length ::
  "CompressionFilter \<Rightarrow> MessageSizeParsedConfig option \<Rightarrow> 32 word option" where
  "DecompressLoop_max_recv_message_length fil limits =
     (let max_recv_message_length = max_recv_size fil
      in case limits of
           None \<Rightarrow> max_recv_message_length
         | Some l \<Rightarrow>
             (case limits_max_recv_size l of
                None \<Rightarrow> max_recv_message_length
              | Some lim \<Rightarrow>
                  (case max_recv_message_length of
                     None \<Rightarrow> Some lim
                   | Some m \<Rightarrow> if lim < m then Some lim else max_recv_message_length)))"

definition DecompressLoop_TakeAndRun ::
  "'c collaborators_scheme \<Rightarrow> CompressionFilter \<Rightarrow> MessageSizeParsedConfig option
   \<Rightarrow> grpc_compression_algorithm \<Rightarrow> (Message \<Rightarrow> DecompressMessage_run)" where
  "DecompressLoop_TakeAndRun env fil limits algorithm =
     (let max_recv_message_length = DecompressLoop_max_recv_message_length fil limits
      in (\<lambda>message. DecompressMessage env fil message algorithm max_recv_message_length))"

text \<open>
  \<^verbatim>\<open>CompressLoop::TakeAndRun(outgoing_metadata)\<close>: the metadata batch is changed in
  place; the model returns the batch after the call, the algorithm chosen and the
  transform handed to the pipe mapper. \<^verbatim>\<open>Take\<close> reads a key and removes it,
  \<^verbatim>\<open>Set\<close> writes it.
\<close>

definition CompressLoop_TakeAndRun ::
  "'c collaborators_scheme \<Rightarrow> CompressionFilter \<Rightarrow> 'm grpc_metadata_batch_scheme
   \<Rightarrow> 'm grpc_metadata_batch_scheme \<times> grpc_compression_algorithm
      \<times> (Message \<Rightarrow> Message \<times> effect list)" where
  "CompressLoop_TakeAndRun env fil outgoing_metadata =
     (let algorithm = value_or (GrpcInternalEncodingRequest outgoing_metadata)
                               (default_compression_algorithm fil);
          md1 = outgoing_metadata\<lparr> GrpcInternalEncodingRequest := None \<rparr>;
          md2 = md1\<lparr> GrpcAcceptEncodingMetadata := Some (enabled_compression_algorithms fil) \<rparr>;
          md3 = (if algorithm \<noteq> GRPC_COMPRESS_NONE
                 then md2\<lparr> GrpcEncodingMetadata := Some algorithm \<rparr> else md2)
      in (md3, algorithm, (\<lambda>m. CompressMessage env fil m algorithm)))"

subsection \<open>A small codec for examples\<close>

text \<open>
  A run-length codec on one shape of payload, used to run the model on concrete inputs:
  a run of four equal bytes is written as the count and the byte; every other input is
  left uncompressed, and only such a pair decompresses.
\<close>

definition rle_compress :: "grpc_compression_algorithm \<Rightarrow> SliceBuffer \<Rightarrow> int \<times> SliceBuffer" where
  "rle_compress algorithm input =
     (case input of
        [a, b, c, d] \<Rightarrow> if a = b \<and> b = c \<and> c = d then (1, [4, a]) else (0, input)
      | _ \<Rightarrow> (0, input))"

definition rle_decompress :: "grpc_compression_algorithm \<Rightarrow> SliceBuffer \<Rightarrow> int \<times> SliceBuffer" where
  "rle_decompress algorithm input =
     (case input of
        [n, a] \<Rightarrow> if n = 4 then (1, [a, a, a, a]) else (0, [])
      | _ \<Rightarrow> (0, []))"

fun algorithm_name :: "grpc_compression_algorithm \<Rightarrow> string" where
  "algorithm_name GRPC_COMPRESS_NONE = ''identity''"
| "algorithm_name GRPC_COMPRESS_DEFLATE = ''deflate''"
| "algorithm_name GRPC_COMPRESS_GZIP = ''gzip''"

definition rle_env :: collaborators where
  "rle_env = \<lparr> grpc_msg_compress = rle_compress,
               grpc_msg_decompress = rle_decompress,
               CompressionAlgorithmAsString = algorithm_name,
               grpc_compression_algorithm_name = (\<lambda>a. Some (algorithm_name a)) \<rparr>"

definition all_enabled :: CompressionFilter where
  "all_enabled = \<lparr> max_recv_size = None,
                   default_compression_algorithm = GRPC_COMPRESS_NONE,
                   enabled_compression_algorithms =
                     {GRPC_COMPRESS_NONE, GRPC_COMPRESS_DEFLATE, GRPC_COMPRESS_GZIP},
                   enable_compression = True,
                   enable_decompression = True \<rparr>"

section \<open>Properties\<close>

subsection \<open>Flag arithmetic\<close>

lemmas flag_defs = GRPC_WRITE_NO_COMPRESS_def GRPC_WRITE_INTERNAL_COMPRESS_def
  GRPC_WRITE_INTERNAL_TEST_ONLY_WAS_COMPRESSED_def

lemma and_or_eq_0: "f AND (a OR b) = 0 \<longleftrightarrow> f AND a = 0 \<and> f AND (b::32 word) = 0"
  by (auto simp add: bit_eq_iff bit_simps)

lemma internal_compress_cleared:
  "((f AND NOT GRPC_WRITE_INTERNAL_COMPRESS) OR GRPC_WRITE_INTERNAL_TEST_ONLY_WAS_COMPRESSED)
     AND GRPC_WRITE_INTERNAL_COMPRESS = 0"
  unfolding flag_defs
  by (simp add: bit.conj_disj_distrib2 word_bw_assocs)

lemma or_mask_and_mask: "((f AND NOT a) OR b) AND b = (b::32 word)"
  by (simp add: bit.conj_disj_distrib2)

lemma other_bits_kept:
  "((f AND NOT a) OR b) AND NOT a AND NOT b = f AND NOT a AND NOT (b::32 word)"
  by (auto simp add: bit_eq_iff bit_simps)

lemma set_mask_and_mask: "(f OR a) AND a = (a::32 word)"
  by (auto simp add: bit_eq_iff bit_simps)

lemma internal_compress_nonzero: "GRPC_WRITE_INTERNAL_COMPRESS \<noteq> 0"
  unfolding flag_defs by simp

subsection \<open>Decimal texts of the sizes used below\<close>

lemma decimal_2048: "decimal 2048 = ''2048''"
  by code_simp

lemma decimal_small: "decimal (Suc 0) = ''1''" "decimal (Suc (Suc 0)) = ''2''"
  by code_simp+

lemma decimal_1024: "decimal 1024 = ''1024''"
  by code_simp

subsection \<open>Decompression of one message\<close>

text \<open>
  Claim C1. A message that passes the size check (no maximum, or a payload no longer than
  it) is returned unchanged, with no routine called, when decompression is disabled or the
  message does not carry \<^verbatim>\<open>GRPC_WRITE_INTERNAL_COMPRESS\<close>. Otherwise
  \<^verbatim>\<open>grpc_msg_decompress\<close> is called once, on the algorithm and the payload; if it
  returns 0 the result is an internal error whose text ends with the algorithm's name; if
  not, the returned message has the decompressed bytes as payload, the
  internally-compressed flag cleared, the test-only was-compressed flag set, and every
  other flag as before.
\<close>

theorem DecompressMessage_steps:
  assumes "max_recv_message_length = None \<or>
           length (payload message) \<le> unat (the max_recv_message_length)"
  shows "(\<not> enable_decompression this \<or> flags message AND GRPC_WRITE_INTERNAL_COMPRESS = 0 \<longrightarrow>
            DecompressMessage env this message algorithm max_recv_message_length =
              \<lparr> returned = Inr message, message_at_return = message, effects = [] \<rparr>) \<and>
         (enable_decompression this \<and> flags message AND GRPC_WRITE_INTERNAL_COMPRESS \<noteq> 0 \<longrightarrow>
            effects (DecompressMessage env this message algorithm max_recv_message_length) =
              [call_grpc_msg_decompress algorithm (payload message)] \<and>
            (fst (grpc_msg_decompress env algorithm (payload message)) = 0 \<longrightarrow>
               returned (DecompressMessage env this message algorithm max_recv_message_length) =
                 Inl (InternalError (''Unexpected error decompressing data for algorithm '' @
                                     CompressionAlgorithmAsString env algorithm))) \<and>
            (fst (grpc_msg_decompress env algorithm (payload message)) \<noteq> 0 \<longrightarrow>
               (\<exists>m'. returned (DecompressMessage env this message algorithm max_recv_message_length) = Inr m' \<and>
                  payload m' = snd (grpc_msg_decompress env algorithm (payload message)) \<and>
                  flags m' AND GRPC_WRITE_INTERNAL_COMPRESS = 0 \<and>
                  flags m' AND GRPC_WRITE_INTERNAL_TEST_ONLY_WAS_COMPRESSED =
                    GRPC_WRITE_INTERNAL_TEST_ONLY_WAS_COMPRESSED \<and>
                  flags m' AND NOT (GRPC_WRITE_INTERNAL_COMPRESS OR
                                    GRPC_WRITE_INTERNAL_TEST_ONLY_WAS_COMPRESSED) =
                    flags message AND NOT (GRPC_WRITE_INTERNAL_COMPRESS OR
                                           GRPC_WRITE_INTERNAL_TEST_ONLY_WAS_COMPRESSED))))"
proof -
  from assms have no_limit_hit:
    "\<not> (max_recv_message_length \<noteq> None \<and>
        length (payload message) > unat (the max_recv_message_length))"
    by auto
  show ?thesis
    using no_limit_hit
    by (auto simp add: DecompressMessage_def Let_def internal_compress_cleared
          or_mask_and_mask other_bits_kept split: prod.splits)
qed

theorem DecompressMessage_steps_witness:
  "(Some (1024 :: 32 word) = None \<or>
      length (payload \<lparr> payload = [4, 7], flags = 0x80000000 \<rparr>) \<le> unat (the (Some (1024 :: 32 word)))) \<and>
   returned (DecompressMessage rle_env all_enabled \<lparr> payload = [4, 7], flags = 0x80000000 \<rparr>
               GRPC_COMPRESS_GZIP (Some 1024)) =
     Inr \<lparr> payload = [7, 7, 7, 7], flags = 0x40000000 \<rparr> \<and>
   returned (DecompressMessage rle_env all_enabled \<lparr> payload = [9], flags = 0x80000000 \<rparr>
               GRPC_COMPRESS_GZIP (Some 1024)) =
     Inl (InternalError ''Unexpected error decompressing data for algorithm gzip'') \<and>
   DecompressMessage rle_env all_enabled \<lparr> payload = [7, 7, 7, 7], flags = 0 \<rparr>
               GRPC_COMPRESS_GZIP (Some 1024) =
     \<lparr> returned = Inr \<lparr> payload = [7, 7, 7, 7], flags = 0 \<rparr>,
       message_at_return = \<lparr> payload = [7, 7, 7, 7], flags = 0 \<rparr>, effects = [] \<rparr>"
  using DecompressMessage_steps [of "Some 1024" "\<lparr> payload = [4, 7], flags = 0x80000000 \<rparr>"
          all_enabled rle_env GRPC_COMPRESS_GZIP]
        DecompressMessage_steps [of "Some 1024" "\<lparr> payload = [9], flags = 0x80000000 \<rparr>"
          all_enabled rle_env GRPC_COMPRESS_GZIP]
        DecompressMessage_steps [of "Some 1024" "\<lparr> payload = [7, 7, 7, 7], flags = 0 \<rparr>"
          all_enabled rle_env GRPC_COMPRESS_GZIP]
  by (simp add: rle_env_def all_enabled_def rle_decompress_def flag_defs DecompressMessage_def Let_def)


text \<open>
  Claim C2. \<^verbatim>\<open>DecompressMessage\<close> returns a resource-exhausted error exactly when
  a maximum \<open>M\<close> is set and the payload, as received, is longer than \<open>M\<close>. The error
  text then carries the payload length and \<open>M\<close>, no routine has been called and the
  message is as it was, whatever its flags, the algorithm and the collaborators.
\<close>

theorem DecompressMessage_size_check:
  "((\<exists>text. returned (DecompressMessage env this message algorithm max_recv_message_length) =
             Inl (ResourceExhaustedError text)) \<longleftrightarrow>
    (\<exists>M. max_recv_message_length = Some M \<and> unat M < length (payload message))) \<and>
   (\<forall>M. max_recv_message_length = Some M \<and> unat M < length (payload message) \<longrightarrow>
      DecompressMessage env this message algorithm max_recv_message_length =
        \<lparr> returned = Inl (ResourceExhaustedError
             (''Received message larger than max ('' @ decimal (length (payload message)) @
              '' vs. '' @ decimal (unat M) @ '')'')),
          message_at_return = message, effects = [] \<rparr>)"
  by (auto simp add: DecompressMessage_def Let_def split: prod.splits)

theorem DecompressMessage_size_check_witness:
  "unat (1024 :: 32 word) < length (payload \<lparr> payload = replicate 2048 0, flags = 0x80000000 \<rparr>) \<and>
   DecompressMessage rle_env all_enabled \<lparr> payload = replicate 2048 0, flags = 0x80000000 \<rparr>
       GRPC_COMPRESS_GZIP (Some 1024) =
     \<lparr> returned = Inl (ResourceExhaustedError ''Received message larger than max (2048 vs. 1024)''),
       message_at_return = \<lparr> payload = replicate 2048 0, flags = 0x80000000 \<rparr>,
       effects = [] \<rparr>"
  using DecompressMessage_size_check [of rle_env all_enabled
          "\<lparr> payload = replicate 2048 0, flags = 0x80000000 \<rparr>" GRPC_COMPRESS_GZIP "Some 1024"]
  by (simp add: decimal_2048 decimal_1024)

text \<open>
  Claim C9. Whenever \<^verbatim>\<open>DecompressMessage\<close> returns an error, of either kind, the
  message the handle owns is the input message: same payload, same flags.
\<close>

theorem DecompressMessage_error_atomic:
  "returned (DecompressMessage env this message algorithm max_recv_message_length) = Inl e \<Longrightarrow>
   message_at_return (DecompressMessage env this message algorithm max_recv_message_length) = message"
  by (auto simp add: DecompressMessage_def Let_def split: prod.splits if_splits)

theorem DecompressMessage_error_atomic_witness:
  "returned (DecompressMessage rle_env all_enabled \<lparr> payload = [9], flags = 0x80000000 \<rparr>
               GRPC_COMPRESS_DEFLATE None) =
     Inl (InternalError ''Unexpected error decompressing data for algorithm deflate'') \<and>
   message_at_return (DecompressMessage rle_env all_enabled \<lparr> payload = [9], flags = 0x80000000 \<rparr>
               GRPC_COMPRESS_DEFLATE None) = \<lparr> payload = [9], flags = 0x80000000 \<rparr> \<and>
   returned (DecompressMessage rle_env all_enabled \<lparr> payload = [4, 7], flags = 0x80000000 \<rparr>
               GRPC_COMPRESS_DEFLATE (Some 1)) =
     Inl (ResourceExhaustedError ''Received message larger than max (2 vs. 1)'') \<and>
   message_at_return (DecompressMessage rle_env all_enabled \<lparr> payload = [4, 7], flags = 0x80000000 \<rparr>
               GRPC_COMPRESS_DEFLATE (Some 1)) = \<lparr> payload = [4, 7], flags = 0x80000000 \<rparr>"
proof -
  have internal:
    "returned (DecompressMessage rle_env all_enabled \<lparr> payload = [9], flags = 0x80000000 \<rparr>
               GRPC_COMPRESS_DEFLATE None) =
     Inl (InternalError ''Unexpected error decompressing data for algorithm deflate'')"
    by (simp add: DecompressMessage_def rle_env_def all_enabled_def rle_decompress_def flag_defs)
  have exhausted:
    "returned (DecompressMessage rle_env all_enabled \<lparr> payload = [4, 7], flags = 0x80000000 \<rparr>
               GRPC_COMPRESS_DEFLATE (Some 1)) =
     Inl (ResourceExhaustedError ''Received message larger than max (2 vs. 1)'')"
    by (simp add: DecompressMessage_def decimal_small)
  show ?thesis
    using internal exhausted
      DecompressMessage_error_atomic [OF internal] DecompressMessage_error_atomic [OF exhausted]
    by simp
qed

text \<open>
  Claim C10. With decompression enabled, a message that carries the internally-compressed
  flag and passes the size check has \<^verbatim>\<open>grpc_msg_decompress\<close> called on it with the
  algorithm given, whichever it is, \<^verbatim>\<open>GRPC_COMPRESS_NONE\<close> included; whereas
  \<^verbatim>\<open>CompressMessage\<close> with \<^verbatim>\<open>GRPC_COMPRESS_NONE\<close> returns the message
  unchanged and calls nothing.
\<close>

theorem DecompressMessage_none_not_special:
  assumes "enable_decompression this"
    and "flags message AND GRPC_WRITE_INTERNAL_COMPRESS \<noteq> 0"
    and "max_recv_message_length = None \<or>
         length (payload message) \<le> unat (the max_recv_message_length)"
  shows "effects (DecompressMessage env this message algorithm max_recv_message_length) =
           [call_grpc_msg_decompress algorithm (payload message)] \<and>
         effects (DecompressMessage env this message GRPC_COMPRESS_NONE max_recv_message_length) =
           [call_grpc_msg_decompress GRPC_COMPRESS_NONE (payload message)] \<and>
         CompressMessage env this message GRPC_COMPRESS_NONE = (message, [])"
  using assms
  by (auto simp add: DecompressMessage_def CompressMessage_def Let_def split: prod.splits)

theorem DecompressMessage_none_not_special_witness:
  "enable_decompression all_enabled \<and>
   flags \<lparr> payload = [4, 7], flags = 0x80000000 \<rparr> AND GRPC_WRITE_INTERNAL_COMPRESS \<noteq> 0 \<and>
   effects (DecompressMessage rle_env all_enabled \<lparr> payload = [4, 7], flags = 0x80000000 \<rparr>
              GRPC_COMPRESS_NONE None) = [call_grpc_msg_decompress GRPC_COMPRESS_NONE [4, 7]] \<and>
   CompressMessage rle_env all_enabled \<lparr> payload = [4, 7], flags = 0x80000000 \<rparr> GRPC_COMPRESS_NONE =
     (\<lparr> payload = [4, 7], flags = 0x80000000 \<rparr>, [])"
  using DecompressMessage_none_not_special [of all_enabled
          "\<lparr> payload = [4, 7], flags = 0x80000000 \<rparr>" None rle_env GRPC_COMPRESS_NONE]
  by (simp add: all_enabled_def flag_defs)

subsection \<open>Compression of one message\<close>

text \<open>
  Claim C4. \<^verbatim>\<open>CompressMessage\<close> returns the message unchanged, and does not call
  \<^verbatim>\<open>grpc_msg_compress\<close>, when the algorithm is \<^verbatim>\<open>GRPC_COMPRESS_NONE\<close>, or
  compression is disabled in the filter, or the message carries
  \<^verbatim>\<open>GRPC_WRITE_NO_COMPRESS\<close> or \<^verbatim>\<open>GRPC_WRITE_INTERNAL_COMPRESS\<close>.
\<close>

theorem CompressMessage_identity:
  assumes "algorithm = GRPC_COMPRESS_NONE \<or> \<not> enable_compression this \<or>
           flags message AND GRPC_WRITE_NO_COMPRESS \<noteq> 0 \<or>
           flags message AND GRPC_WRITE_INTERNAL_COMPRESS \<noteq> 0"
  shows "CompressMessage env this message algorithm = (message, [])"
  using assms by (auto simp add: CompressMessage_def and_or_eq_0)

theorem CompressMessage_identity_witness:
  "flags \<lparr> payload = [7, 7, 7, 7], flags = 2 \<rparr> AND GRPC_WRITE_NO_COMPRESS \<noteq> 0 \<and>
   CompressMessage rle_env all_enabled \<lparr> payload = [7, 7, 7, 7], flags = 2 \<rparr> GRPC_COMPRESS_GZIP =
     (\<lparr> payload = [7, 7, 7, 7], flags = 2 \<rparr>, []) \<and>
   CompressMessage rle_env all_enabled \<lparr> payload = [7, 7, 7, 7], flags = 0 \<rparr> GRPC_COMPRESS_NONE =
     (\<lparr> payload = [7, 7, 7, 7], flags = 0 \<rparr>, []) \<and>
   CompressMessage rle_env (all_enabled\<lparr> enable_compression := False \<rparr>)
       \<lparr> payload = [7, 7, 7, 7], flags = 0 \<rparr> GRPC_COMPRESS_GZIP =
     (\<lparr> payload = [7, 7, 7, 7], flags = 0 \<rparr>, []) \<and>
   CompressMessage rle_env all_enabled \<lparr> payload = [4, 7], flags = 0x80000000 \<rparr> GRPC_COMPRESS_GZIP =
     (\<lparr> payload = [4, 7], flags = 0x80000000 \<rparr>, [])"
  using CompressMessage_identity [of GRPC_COMPRESS_GZIP all_enabled
          "\<lparr> payload = [7, 7, 7, 7], flags = 2 \<rparr>" rle_env]
        CompressMessage_identity [of GRPC_COMPRESS_NONE all_enabled
          "\<lparr> payload = [7, 7, 7, 7], flags = 0 \<rparr>" rle_env]
        CompressMessage_identity [of GRPC_COMPRESS_GZIP "all_enabled\<lparr> enable_compression := False \<rparr>"
          "\<lparr> payload = [7, 7, 7, 7], flags = 0 \<rparr>" rle_env]
        CompressMessage_identity [of GRPC_COMPRESS_GZIP all_enabled
          "\<lparr> payload = [4, 7], flags = 0x80000000 \<rparr>" rle_env]
  by (simp add: flag_defs)


text \<open>
  Claim C3. When \<^verbatim>\<open>CompressMessage\<close> attempts compression (the algorithm is not
  \<^verbatim>\<open>GRPC_COMPRESS_NONE\<close>, compression is enabled, the message carries neither
  \<^verbatim>\<open>GRPC_WRITE_NO_COMPRESS\<close> nor \<^verbatim>\<open>GRPC_WRITE_INTERNAL_COMPRESS\<close>), it calls
  \<^verbatim>\<open>grpc_msg_compress\<close> once. If the routine reports a reduction, the payload becomes
  the routine's output and the internally-compressed flag is set; if not, the message
  returned is the input message, payload and flags, and its internally-compressed flag is
  not set. \<^verbatim>\<open>CompressMessage\<close> has no failure path: on every input it returns a
  message, either the input or the input with the payload swapped and the flag set.
\<close>

theorem CompressMessage_attempt:
  "(algorithm \<noteq> GRPC_COMPRESS_NONE \<and> enable_compression this \<and>
    flags message AND GRPC_WRITE_NO_COMPRESS = 0 \<and>
    flags message AND GRPC_WRITE_INTERNAL_COMPRESS = 0 \<longrightarrow>
      snd (CompressMessage env this message algorithm) =
        [call_grpc_msg_compress algorithm (payload message)] \<and>
      (fst (grpc_msg_compress env algorithm (payload message)) \<noteq> 0 \<longrightarrow>
         payload (fst (CompressMessage env this message algorithm)) =
           snd (grpc_msg_compress env algorithm (payload message)) \<and>
         flags (fst (CompressMessage env this message algorithm)) =
           flags message OR GRPC_WRITE_INTERNAL_COMPRESS \<and>
         flags (fst (CompressMessage env this message algorithm)) AND GRPC_WRITE_INTERNAL_COMPRESS
           \<noteq> 0) \<and>
      (fst (grpc_msg_compress env algorithm (payload message)) = 0 \<longrightarrow>
         fst (CompressMessage env this message algorithm) = message \<and>
         flags (fst (CompressMessage env this message algorithm)) AND GRPC_WRITE_INTERNAL_COMPRESS
           = 0)) \<and>
   (fst (CompressMessage env this message algorithm) = message \<or>
    fst (CompressMessage env this message algorithm) =
      message\<lparr> payload := snd (grpc_msg_compress env algorithm (payload message)),
               flags := flags message OR GRPC_WRITE_INTERNAL_COMPRESS \<rparr>)"
  by (auto simp add: CompressMessage_def Let_def and_or_eq_0 set_mask_and_mask
        internal_compress_nonzero split: prod.splits)

theorem CompressMessage_attempt_witness:
  "GRPC_COMPRESS_GZIP \<noteq> GRPC_COMPRESS_NONE \<and> enable_compression all_enabled \<and>
   flags \<lparr> payload = [7, 7, 7, 7], flags = 0 \<rparr> AND GRPC_WRITE_NO_COMPRESS = 0 \<and>
   flags \<lparr> payload = [7, 7, 7, 7], flags = 0 \<rparr> AND GRPC_WRITE_INTERNAL_COMPRESS = 0 \<and>
   fst (grpc_msg_compress rle_env GRPC_COMPRESS_GZIP [7, 7, 7, 7]) \<noteq> 0 \<and>
   fst (grpc_msg_compress rle_env GRPC_COMPRESS_GZIP [1, 2, 3]) = 0 \<and>
   CompressMessage rle_env all_enabled \<lparr> payload = [7, 7, 7, 7], flags = 0 \<rparr> GRPC_COMPRESS_GZIP =
     (\<lparr> payload = [4, 7], flags = 0x80000000 \<rparr>,
      [call_grpc_msg_compress GRPC_COMPRESS_GZIP [7, 7, 7, 7]]) \<and>
   CompressMessage rle_env all_enabled \<lparr> payload = [1, 2, 3], flags = 0 \<rparr> GRPC_COMPRESS_GZIP =
     (\<lparr> payload = [1, 2, 3], flags = 0 \<rparr>,
      [call_grpc_msg_compress GRPC_COMPRESS_GZIP [1, 2, 3]])"
  using CompressMessage_attempt [of GRPC_COMPRESS_GZIP all_enabled
          "\<lparr> payload = [7, 7, 7, 7], flags = 0 \<rparr>" rle_env]
        CompressMessage_attempt [of GRPC_COMPRESS_GZIP all_enabled
          "\<lparr> payload = [1, 2, 3], flags = 0 \<rparr>" rle_env]
  by (simp add: all_enabled_def rle_env_def rle_compress_def flag_defs prod_eq_iff)

subsection \<open>Negotiation on the send and on the receive side\<close>

text \<open>
  Claim C5, as stated, fails in its last sentence. With gzip requested and announced in
  the outgoing metadata, a message that carries \<^verbatim>\<open>GRPC_WRITE_NO_COMPRESS\<close> goes
  out as it came, without a call of \<^verbatim>\<open>grpc_msg_compress\<close>, although the same
  payload without the flag is compressed.
\<close>

theorem CompressLoop_TakeAndRun_flagged_message_counterexample:
  "fst (snd (CompressLoop_TakeAndRun rle_env
       (all_enabled\<lparr> enabled_compression_algorithms := {GRPC_COMPRESS_GZIP, GRPC_COMPRESS_NONE} \<rparr>)
       \<lparr> GrpcInternalEncodingRequest = Some GRPC_COMPRESS_GZIP,
         GrpcAcceptEncodingMetadata = None, GrpcEncodingMetadata = None \<rparr>)) = GRPC_COMPRESS_GZIP \<and>
   GrpcEncodingMetadata (fst (CompressLoop_TakeAndRun rle_env
       (all_enabled\<lparr> enabled_compression_algorithms := {GRPC_COMPRESS_GZIP, GRPC_COMPRESS_NONE} \<rparr>)
       \<lparr> GrpcInternalEncodingRequest = Some GRPC_COMPRESS_GZIP,
         GrpcAcceptEncodingMetadata = None, GrpcEncodingMetadata = None \<rparr>)) = Some GRPC_COMPRESS_GZIP \<and>
   snd (snd (CompressLoop_TakeAndRun rle_env
       (all_enabled\<lparr> enabled_compression_algorithms := {GRPC_COMPRESS_GZIP, GRPC_COMPRESS_NONE} \<rparr>)
       \<lparr> GrpcInternalEncodingRequest = Some GRPC_COMPRESS_GZIP,
         GrpcAcceptEncodingMetadata = None, GrpcEncodingMetadata = None \<rparr>))
     \<lparr> payload = [7, 7, 7, 7], flags = 2 \<rparr> = (\<lparr> payload = [7, 7, 7, 7], flags = 2 \<rparr>, []) \<and>
   snd (snd (CompressLoop_TakeAndRun rle_env
       (all_enabled\<lparr> enabled_compression_algorithms := {GRPC_COMPRESS_GZIP, GRPC_COMPRESS_NONE} \<rparr>)
       \<lparr> GrpcInternalEncodingRequest = Some GRPC_COMPRESS_GZIP,
         GrpcAcceptEncodingMetadata = None, GrpcEncodingMetadata = None \<rparr>))
     \<lparr> payload = [7, 7, 7, 7], flags = 0 \<rparr> =
       (\<lparr> payload = [4, 7], flags = 0x80000000 \<rparr>,
        [call_grpc_msg_compress GRPC_COMPRESS_GZIP [7, 7, 7, 7]])"
  by (simp add: CompressLoop_TakeAndRun_def CompressMessage_def Let_def value_or_def
        all_enabled_def rle_env_def rle_compress_def flag_defs)

text \<open>
  Claim C5, amended. \<^verbatim>\<open>CompressLoop::TakeAndRun\<close> takes the requested encoding
  out of the outgoing initial metadata (afterwards the key is absent), choosing the
  filter's effective default when there is none; it always writes the accepted encodings
  as the whole enabled set; it writes the encoding if and only if the algorithm chosen is
  not \<^verbatim>\<open>GRPC_COMPRESS_NONE\<close> (otherwise that key stays as it was); it touches no
  other key. Every outgoing message then goes through \<^verbatim>\<open>CompressMessage\<close> with the
  algorithm chosen: it goes out unchanged, with no routine called, when that algorithm is
  \<^verbatim>\<open>GRPC_COMPRESS_NONE\<close>, or compression is disabled, or the message carries
  \<^verbatim>\<open>GRPC_WRITE_NO_COMPRESS\<close> or \<^verbatim>\<open>GRPC_WRITE_INTERNAL_COMPRESS\<close>; otherwise
  \<^verbatim>\<open>grpc_msg_compress\<close> is called on it with the algorithm chosen, and it goes out
  with the compressed payload and the internally-compressed flag if the routine reports
  a reduction, unchanged if not.
\<close>

theorem CompressLoop_TakeAndRun_negotiation:
  "(case CompressLoop_TakeAndRun env fil outgoing_metadata of
      (md', algorithm, transform) \<Rightarrow>
        algorithm = (case GrpcInternalEncodingRequest outgoing_metadata of
                       Some requested \<Rightarrow> requested
                     | None \<Rightarrow> default_compression_algorithm fil) \<and>
        GrpcInternalEncodingRequest md' = None \<and>
        GrpcAcceptEncodingMetadata md' = Some (enabled_compression_algorithms fil) \<and>
        (algorithm \<noteq> GRPC_COMPRESS_NONE \<longrightarrow> GrpcEncodingMetadata md' = Some algorithm) \<and>
        (algorithm = GRPC_COMPRESS_NONE \<longrightarrow>
           GrpcEncodingMetadata md' = GrpcEncodingMetadata outgoing_metadata) \<and>
        grpc_metadata_batch.more md' = grpc_metadata_batch.more outgoing_metadata \<and>
        (\<forall>m. transform m = CompressMessage env fil m algorithm) \<and>
        (\<forall>m. algorithm = GRPC_COMPRESS_NONE \<or> \<not> enable_compression fil \<or>
              flags m AND GRPC_WRITE_NO_COMPRESS \<noteq> 0 \<or>
              flags m AND GRPC_WRITE_INTERNAL_COMPRESS \<noteq> 0 \<longrightarrow>
              transform m = (m, [])) \<and>
        (\<forall>m. algorithm \<noteq> GRPC_COMPRESS_NONE \<and> enable_compression fil \<and>
              flags m AND GRPC_WRITE_NO_COMPRESS = 0 \<and>
              flags m AND GRPC_WRITE_INTERNAL_COMPRESS = 0 \<longrightarrow>
              snd (transform m) = [call_grpc_msg_compress algorithm (payload m)] \<and>
              (fst (grpc_msg_compress env algorithm (payload m)) \<noteq> 0 \<longrightarrow>
                 fst (transform m) =
                   m\<lparr> payload := snd (grpc_msg_compress env algorithm (payload m)),
                      flags := flags m OR GRPC_WRITE_INTERNAL_COMPRESS \<rparr>) \<and>
              (fst (grpc_msg_compress env algorithm (payload m)) = 0 \<longrightarrow>
                 fst (transform m) = m)))"
proof -
  define algorithm where
    "algorithm = value_or (GrpcInternalEncodingRequest outgoing_metadata)
                          (default_compression_algorithm fil)"
  have skipped: "CompressMessage env fil m algorithm = (m, [])"
    if "algorithm = GRPC_COMPRESS_NONE \<or> \<not> enable_compression fil \<or>
        flags m AND GRPC_WRITE_NO_COMPRESS \<noteq> 0 \<or>
        flags m AND GRPC_WRITE_INTERNAL_COMPRESS \<noteq> 0" for m
    using that by (auto simp add: CompressMessage_def and_or_eq_0)
  have tried:
    "snd (CompressMessage env fil m algorithm) = [call_grpc_msg_compress algorithm (payload m)] \<and>
     (fst (grpc_msg_compress env algorithm (payload m)) \<noteq> 0 \<longrightarrow>
        fst (CompressMessage env fil m algorithm) =
          m\<lparr> payload := snd (grpc_msg_compress env algorithm (payload m)),
             flags := flags m OR GRPC_WRITE_INTERNAL_COMPRESS \<rparr>) \<and>
     (fst (grpc_msg_compress env algorithm (payload m)) = 0 \<longrightarrow>
        fst (CompressMessage env fil m algorithm) = m)"
    if "algorithm \<noteq> GRPC_COMPRESS_NONE \<and> enable_compression fil \<and>
        flags m AND GRPC_WRITE_NO_COMPRESS = 0 \<and>
        flags m AND GRPC_WRITE_INTERNAL_COMPRESS = 0" for m
    using that
    by (auto simp add: CompressMessage_def Let_def and_or_eq_0 split: prod.splits)
  have metadata:
    "CompressLoop_TakeAndRun env fil outgoing_metadata =
       ((if algorithm \<noteq> GRPC_COMPRESS_NONE
         then outgoing_metadata\<lparr> GrpcInternalEncodingRequest := None,
                GrpcAcceptEncodingMetadata := Some (enabled_compression_algorithms fil),
                GrpcEncodingMetadata := Some algorithm \<rparr>
         else outgoing_metadata\<lparr> GrpcInternalEncodingRequest := None,
                GrpcAcceptEncodingMetadata := Some (enabled_compression_algorithms fil) \<rparr>),
        algorithm, (\<lambda>m. CompressMessage env fil m algorithm))"
    by (simp add: CompressLoop_TakeAndRun_def Let_def algorithm_def)
  have chosen: "algorithm = (case GrpcInternalEncodingRequest outgoing_metadata of
                               Some requested \<Rightarrow> requested
                             | None \<Rightarrow> default_compression_algorithm fil)"
    by (simp add: algorithm_def value_or_def split: option.splits)
  show ?thesis
    unfolding metadata
    using skipped tried chosen
    by simp
qed

theorem CompressLoop_TakeAndRun_negotiation_witness:
  "CompressLoop_TakeAndRun rle_env
       (all_enabled\<lparr> enabled_compression_algorithms := {GRPC_COMPRESS_GZIP, GRPC_COMPRESS_NONE} \<rparr>)
       \<lparr> GrpcInternalEncodingRequest = Some GRPC_COMPRESS_GZIP,
         GrpcAcceptEncodingMetadata = None, GrpcEncodingMetadata = None \<rparr> =
     (\<lparr> GrpcInternalEncodingRequest = None,
        GrpcAcceptEncodingMetadata = Some {GRPC_COMPRESS_GZIP, GRPC_COMPRESS_NONE},
        GrpcEncodingMetadata = Some GRPC_COMPRESS_GZIP \<rparr>,
      GRPC_COMPRESS_GZIP,
      (\<lambda>m. CompressMessage rle_env
              (all_enabled\<lparr> enabled_compression_algorithms := {GRPC_COMPRESS_GZIP, GRPC_COMPRESS_NONE} \<rparr>)
              m GRPC_COMPRESS_GZIP)) \<and>
   fst (CompressLoop_TakeAndRun rle_env all_enabled
       \<lparr> GrpcInternalEncodingRequest = None,
         GrpcAcceptEncodingMetadata = None, GrpcEncodingMetadata = None \<rparr>) =
     \<lparr> GrpcInternalEncodingRequest = None,
       GrpcAcceptEncodingMetadata =
         Some {GRPC_COMPRESS_NONE, GRPC_COMPRESS_DEFLATE, GRPC_COMPRESS_GZIP},
       GrpcEncodingMetadata = None \<rparr> \<and>
   GRPC_COMPRESS_GZIP \<noteq> GRPC_COMPRESS_NONE \<and>
   enable_compression
     (all_enabled\<lparr> enabled_compression_algorithms := {GRPC_COMPRESS_GZIP, GRPC_COMPRESS_NONE} \<rparr>) \<and>
   flags \<lparr> payload = [7, 7, 7, 7], flags = 0 \<rparr> AND GRPC_WRITE_NO_COMPRESS = 0 \<and>
   flags \<lparr> payload = [7, 7, 7, 7], flags = 0 \<rparr> AND GRPC_WRITE_INTERNAL_COMPRESS = 0 \<and>
   fst (grpc_msg_compress rle_env GRPC_COMPRESS_GZIP [7, 7, 7, 7]) \<noteq> 0 \<and>
   CompressMessage rle_env
       (all_enabled\<lparr> enabled_compression_algorithms := {GRPC_COMPRESS_GZIP, GRPC_COMPRESS_NONE} \<rparr>)
       \<lparr> payload = [7, 7, 7, 7], flags = 0 \<rparr> GRPC_COMPRESS_GZIP =
     (\<lparr> payload = [4, 7], flags = 0x80000000 \<rparr>,
      [call_grpc_msg_compress GRPC_COMPRESS_GZIP [7, 7, 7, 7]]) \<and>
   flags \<lparr> payload = [7, 7, 7, 7], flags = 2 \<rparr> AND GRPC_WRITE_NO_COMPRESS \<noteq> 0 \<and>
   CompressMessage rle_env
       (all_enabled\<lparr> enabled_compression_algorithms := {GRPC_COMPRESS_GZIP, GRPC_COMPRESS_NONE} \<rparr>)
       \<lparr> payload = [7, 7, 7, 7], flags = 2 \<rparr> GRPC_COMPRESS_GZIP =
     (\<lparr> payload = [7, 7, 7, 7], flags = 2 \<rparr>, [])"
proof -
  have plain:
    "CompressMessage rle_env
       (all_enabled\<lparr> enabled_compression_algorithms := {GRPC_COMPRESS_GZIP, GRPC_COMPRESS_NONE} \<rparr>)
       \<lparr> payload = [7, 7, 7, 7], flags = 0 \<rparr> GRPC_COMPRESS_GZIP =
     (\<lparr> payload = [4, 7], flags = 0x80000000 \<rparr>,
      [call_grpc_msg_compress GRPC_COMPRESS_GZIP [7, 7, 7, 7]])"
    by (simp add: CompressMessage_def all_enabled_def rle_env_def rle_compress_def flag_defs)
  have flagged:
    "CompressMessage rle_env
       (all_enabled\<lparr> enabled_compression_algorithms := {GRPC_COMPRESS_GZIP, GRPC_COMPRESS_NONE} \<rparr>)
       \<lparr> payload = [7, 7, 7, 7], flags = 2 \<rparr> GRPC_COMPRESS_GZIP =
     (\<lparr> payload = [7, 7, 7, 7], flags = 2 \<rparr>, [])"
    by (simp add: CompressMessage_def flag_defs)
  have codec: "fst (grpc_msg_compress rle_env GRPC_COMPRESS_GZIP [7, 7, 7, 7]) \<noteq> 0"
    by (simp add: rle_env_def rle_compress_def)
  have facts:
    "GRPC_COMPRESS_GZIP \<noteq> GRPC_COMPRESS_NONE \<and>
     enable_compression
       (all_enabled\<lparr> enabled_compression_algorithms := {GRPC_COMPRESS_GZIP, GRPC_COMPRESS_NONE} \<rparr>) \<and>
     flags \<lparr> payload = [7, 7, 7, 7], flags = 0 \<rparr> AND GRPC_WRITE_NO_COMPRESS = 0 \<and>
     flags \<lparr> payload = [7, 7, 7, 7], flags = 0 \<rparr> AND GRPC_WRITE_INTERNAL_COMPRESS = 0 \<and>
     flags \<lparr> payload = [7, 7, 7, 7], flags = 2 \<rparr> AND GRPC_WRITE_NO_COMPRESS \<noteq> 0"
    by (simp add: all_enabled_def flag_defs)
  have runs:
    "CompressLoop_TakeAndRun rle_env
       (all_enabled\<lparr> enabled_compression_algorithms := {GRPC_COMPRESS_GZIP, GRPC_COMPRESS_NONE} \<rparr>)
       \<lparr> GrpcInternalEncodingRequest = Some GRPC_COMPRESS_GZIP,
         GrpcAcceptEncodingMetadata = None, GrpcEncodingMetadata = None \<rparr> =
     (\<lparr> GrpcInternalEncodingRequest = None,
        GrpcAcceptEncodingMetadata = Some {GRPC_COMPRESS_GZIP, GRPC_COMPRESS_NONE},
        GrpcEncodingMetadata = Some GRPC_COMPRESS_GZIP \<rparr>,
      GRPC_COMPRESS_GZIP,
      (\<lambda>m. CompressMessage rle_env
              (all_enabled\<lparr> enabled_compression_algorithms := {GRPC_COMPRESS_GZIP, GRPC_COMPRESS_NONE} \<rparr>)
              m GRPC_COMPRESS_GZIP)) \<and>
     fst (CompressLoop_TakeAndRun rle_env all_enabled
       \<lparr> GrpcInternalEncodingRequest = None,
         GrpcAcceptEncodingMetadata = None, GrpcEncodingMetadata = None \<rparr>) =
     \<lparr> GrpcInternalEncodingRequest = None,
       GrpcAcceptEncodingMetadata =
         Some {GRPC_COMPRESS_NONE, GRPC_COMPRESS_DEFLATE, GRPC_COMPRESS_GZIP},
       GrpcEncodingMetadata = None \<rparr>"
    using CompressLoop_TakeAndRun_negotiation [where env = rle_env and fil =
            "all_enabled\<lparr> enabled_compression_algorithms := {GRPC_COMPRESS_GZIP, GRPC_COMPRESS_NONE} \<rparr>"
            and outgoing_metadata = "\<lparr> GrpcInternalEncodingRequest = Some GRPC_COMPRESS_GZIP,
               GrpcAcceptEncodingMetadata = None, GrpcEncodingMetadata = None \<rparr>"]
          CompressLoop_TakeAndRun_negotiation [where env = rle_env and fil = all_enabled
            and outgoing_metadata = "\<lparr> GrpcInternalEncodingRequest = None,
               GrpcAcceptEncodingMetadata = None, GrpcEncodingMetadata = None \<rparr>"]
    by (auto simp add: all_enabled_def split: prod.splits)
  show ?thesis
    using runs plain flagged codec facts by simp
qed

text \<open>
  Claim C7. The maximum that \<^verbatim>\<open>DecompressLoop::TakeAndRun\<close> passes to
  \<^verbatim>\<open>DecompressMessage\<close> is the smaller of the channel's maximum and the per-call
  maximum of the service config when both are present, the one present when only one is,
  and none (unbounded) when neither is.
\<close>

theorem DecompressLoop_effective_max:
  "(\<forall>message. DecompressLoop_TakeAndRun env fil limits algorithm message =
       DecompressMessage env fil message algorithm
         (DecompressLoop_max_recv_message_length fil limits)) \<and>
   DecompressLoop_max_recv_message_length fil limits =
     (case (max_recv_size fil, Option.bind limits limits_max_recv_size) of
        (Some channel_max, Some call_max) \<Rightarrow> Some (min channel_max call_max)
      | (Some channel_max, None) \<Rightarrow> Some channel_max
      | (None, Some call_max) \<Rightarrow> Some call_max
      | (None, None) \<Rightarrow> None)"
  by (auto simp add: DecompressLoop_TakeAndRun_def DecompressLoop_max_recv_message_length_def
        Let_def min_def split: option.splits)

theorem DecompressLoop_effective_max_witness:
  "DecompressLoop_max_recv_message_length (all_enabled\<lparr> max_recv_size := Some 4096 \<rparr>)
     (Some \<lparr> limits_max_send_size = None, limits_max_recv_size = Some 1024 \<rparr>) = Some 1024 \<and>
   DecompressLoop_max_recv_message_length (all_enabled\<lparr> max_recv_size := Some 512 \<rparr>)
     (Some \<lparr> limits_max_send_size = None, limits_max_recv_size = Some 1024 \<rparr>) = Some 512 \<and>
   DecompressLoop_max_recv_message_length (all_enabled\<lparr> max_recv_size := Some 512 \<rparr>) None
     = Some 512 \<and>
   DecompressLoop_max_recv_message_length all_enabled
     (Some \<lparr> limits_max_send_size = None, limits_max_recv_size = Some 1024 \<rparr>) = Some 1024 \<and>
   DecompressLoop_max_recv_message_length all_enabled
     (Some \<lparr> limits_max_send_size = Some 7, limits_max_recv_size = None \<rparr>) = None \<and>
   DecompressLoop_max_recv_message_length all_enabled None = None"
  using DecompressLoop_effective_max [where env = rle_env and fil = "all_enabled\<lparr> max_recv_size := Some 4096 \<rparr>"
          and limits = "Some \<lparr> limits_max_send_size = None, limits_max_recv_size = Some 1024 \<rparr>"]
        DecompressLoop_effective_max [where env = rle_env and fil = "all_enabled\<lparr> max_recv_size := Some 512 \<rparr>"
          and limits = "Some \<lparr> limits_max_send_size = None, limits_max_recv_size = Some 1024 \<rparr>"]
        DecompressLoop_effective_max [where env = rle_env and fil = "all_enabled\<lparr> max_recv_size := Some 512 \<rparr>"
          and limits = None]
        DecompressLoop_effective_max [where env = rle_env and fil = all_enabled
          and limits = "Some \<lparr> limits_max_send_size = None, limits_max_recv_size = Some 1024 \<rparr>"]
        DecompressLoop_effective_max [where env = rle_env and fil = all_enabled
          and limits = "Some \<lparr> limits_max_send_size = Some 7, limits_max_recv_size = None \<rparr>"]
        DecompressLoop_effective_max [where env = rle_env and fil = all_enabled
          and limits = None]
  by (simp add: all_enabled_def)


subsection \<open>Construction of the filter\<close>

text \<open>
  Claim C6: the effective default algorithm of a constructed filter is a member of its
  enabled set. The constructor does not achieve this, which its own comment
  (\<^verbatim>\<open>// Make sure the default is enabled.\<close>) sets out to do: when the configured
  default is not enabled it switches to \<^verbatim>\<open>GRPC_COMPRESS_NONE\<close> without checking that
  \<^verbatim>\<open>GRPC_COMPRESS_NONE\<close> is enabled. With only gzip enabled and deflate configured
  as the default, the filter's default becomes \<^verbatim>\<open>GRPC_COMPRESS_NONE\<close>, which is not
  in its enabled set; with nothing enabled and no default configured, it logs that
  identity is not enabled and switches from none to none.
\<close>

theorem CompressionFilter_default_not_enabled_gzip_only:
  "ClientCompressionFilter_Create rle_env
      \<lparr> GetMaxRecvSizeFromChannelArgs = None,
        DefaultCompressionAlgorithmFromChannelArgs = Some GRPC_COMPRESS_DEFLATE,
        config_enabled_compression_algorithms = {GRPC_COMPRESS_GZIP},
        GRPC_ARG_ENABLE_PER_MESSAGE_COMPRESSION = None,
        GRPC_ARG_ENABLE_PER_MESSAGE_DECOMPRESSION = None \<rparr> =
     (Inr \<lparr> max_recv_size = None,
            default_compression_algorithm = GRPC_COMPRESS_NONE,
            enabled_compression_algorithms = {GRPC_COMPRESS_GZIP},
            enable_compression = True,
            enable_decompression = True \<rparr>,
      [call_gpr_log GPR_ERROR
         ''default compression algorithm deflate not enabled: switching to none'']) \<and>
   GRPC_COMPRESS_NONE \<notin> {GRPC_COMPRESS_GZIP} \<and>
   ClientCompressionFilter_Create rle_env
      \<lparr> GetMaxRecvSizeFromChannelArgs = None,
        DefaultCompressionAlgorithmFromChannelArgs = None,
        config_enabled_compression_algorithms = {},
        GRPC_ARG_ENABLE_PER_MESSAGE_COMPRESSION = None,
        GRPC_ARG_ENABLE_PER_MESSAGE_DECOMPRESSION = None \<rparr> =
     (Inr \<lparr> max_recv_size = None,
            default_compression_algorithm = GRPC_COMPRESS_NONE,
            enabled_compression_algorithms = {},
            enable_compression = True,
            enable_decompression = True \<rparr>,
      [call_gpr_log GPR_ERROR
         ''default compression algorithm identity not enabled: switching to none''])"
  by (simp add: ClientCompressionFilter_Create_def CompressionFilter_CompressionFilter_def
        CompressionAlgorithmSet_FromChannelArgs_def value_or_def Let_def rle_env_def)

subsection \<open>Round trip\<close>

text \<open>
  Claim C8. Let a message carry neither the internally-compressed nor the do-not-compress
  flag, with compression and decompression enabled, and let the algorithm reduce its
  payload: \<^verbatim>\<open>grpc_msg_compress\<close> reports a reduction to a shorter output, which
  \<^verbatim>\<open>grpc_msg_decompress\<close> turns back into the payload. Then decompressing the
  compressed message, under no limit or a limit of at least the payload's length, returns
  a message with the original payload and the internally-compressed flag clear.
\<close>

theorem compress_decompress_round_trip:
  assumes "flags m AND GRPC_WRITE_INTERNAL_COMPRESS = 0"
    and "flags m AND GRPC_WRITE_NO_COMPRESS = 0"
    and "enable_compression this" and "enable_decompression this"
    and "fst (grpc_msg_compress env algorithm (payload m)) \<noteq> 0"
    and "length (snd (grpc_msg_compress env algorithm (payload m))) < length (payload m)"
    and "fst (grpc_msg_decompress env algorithm (snd (grpc_msg_compress env algorithm (payload m))))
           \<noteq> 0"
    and "snd (grpc_msg_decompress env algorithm (snd (grpc_msg_compress env algorithm (payload m))))
           = payload m"
    and "limit = None \<or> length (payload m) \<le> unat (the limit)"
  shows "\<exists>m'. returned (DecompressMessage env this
                  (fst (CompressMessage env this m algorithm)) algorithm limit) = Inr m' \<and>
              payload m' = payload m \<and>
              flags m' AND GRPC_WRITE_INTERNAL_COMPRESS = 0"
proof (cases "algorithm = GRPC_COMPRESS_NONE")
  case True
  then have "CompressMessage env this m algorithm = (m, [])"
    by (simp add: CompressMessage_def)
  then show ?thesis
    using assms(1,9) by (auto simp add: DecompressMessage_def)
next
  case False
  define c where "c = snd (grpc_msg_compress env algorithm (payload m))"
  have sent: "fst (CompressMessage env this m algorithm) =
                m\<lparr> payload := c, flags := flags m OR GRPC_WRITE_INTERNAL_COMPRESS \<rparr>"
    using False assms(1,2,3,5)
    by (auto simp add: CompressMessage_def Let_def and_or_eq_0 c_def split: prod.splits)
  have size_ok: "\<not> (limit \<noteq> None \<and> length c > unat (the limit))"
    using assms(6,9) by (auto simp add: c_def)
  have flagged: "(flags m OR GRPC_WRITE_INTERNAL_COMPRESS) AND GRPC_WRITE_INTERNAL_COMPRESS \<noteq> 0"
    by (simp add: set_mask_and_mask internal_compress_nonzero)
  show ?thesis
    using size_ok flagged assms(4,7,8)
    by (auto simp add: sent DecompressMessage_def Let_def internal_compress_cleared c_def
          split: prod.splits)
qed

theorem compress_decompress_round_trip_witness:
  "flags \<lparr> payload = [7, 7, 7, 7], flags = 0 \<rparr> AND GRPC_WRITE_INTERNAL_COMPRESS = 0 \<and>
   flags \<lparr> payload = [7, 7, 7, 7], flags = 0 \<rparr> AND GRPC_WRITE_NO_COMPRESS = 0 \<and>
   enable_compression all_enabled \<and> enable_decompression all_enabled \<and>
   grpc_msg_compress rle_env GRPC_COMPRESS_GZIP [7, 7, 7, 7] = (1, [4, 7]) \<and>
   grpc_msg_decompress rle_env GRPC_COMPRESS_GZIP [4, 7] = (1, [7, 7, 7, 7]) \<and>
   length (payload \<lparr> payload = [7, 7, 7, 7], flags = 0 \<rparr>) \<le> unat (the (Some (4 :: 32 word))) \<and>
   (\<exists>m'. returned (DecompressMessage rle_env all_enabled
             (fst (CompressMessage rle_env all_enabled \<lparr> payload = [7, 7, 7, 7], flags = 0 \<rparr>
                     GRPC_COMPRESS_GZIP)) GRPC_COMPRESS_GZIP (Some 4)) = Inr m' \<and>
          payload m' = [7, 7, 7, 7] \<and> flags m' AND GRPC_WRITE_INTERNAL_COMPRESS = 0)"
  using compress_decompress_round_trip [where env = rle_env and this = all_enabled
          and m = "\<lparr> payload = [7, 7, 7, 7], flags = 0 \<rparr>" and algorithm = GRPC_COMPRESS_GZIP
          and limit = "Some 4"]
  by (simp add: rle_env_def all_enabled_def rle_compress_def rle_decompress_def flag_defs)


end
